theory Spec2Isabelle
  imports Main
begin

unbundle bit_operations_syntax

section \<open>Token-based authentication (Practical 6): the handlers of the README\<close>

text \<open>
  The three Hono handlers of \<^verbatim>\<open>Practical6-Token_Based_Authentication/README.md\<close>
  (\<^verbatim>\<open>POST /register\<close>, \<^verbatim>\<open>POST /login\<close>, \<^verbatim>\<open>GET /protected/account/balance\<close>)
  are embedded as functions on an explicit user table. What the handlers call in
  the runtime (\<^verbatim>\<open>Bun.password\<close>, \<^verbatim>\<open>sign\<close> of hono/jwt, the uuid generator of the
  database, the errors the database throws for a row) is taken as a parameter;
  a thrown exception is the \<open>Inl\<close> of a sum.
\<close>

subsection \<open>JSON bodies, responses, exceptions\<close>

datatype json =
    JNull
  | JStr string
  | JNum int
  | JArr "json list"
  | JObj "(string \<times> json) list"

record response =
  status :: nat
  body :: json

text \<open>\<^verbatim>\<open>c.json(obj)\<close> with no status argument answers with Hono's default status 200.\<close>

definition c_json :: "json \<Rightarrow> response" where
  "c_json obj = \<lparr>status = 200, body = obj\<rparr>"

text \<open>
  What a handler can throw: Hono's \<^verbatim>\<open>HTTPException(status, {message})\<close>, Prisma's
  \<^verbatim>\<open>PrismaClientKnownRequestError\<close> with its \<^verbatim>\<open>code\<close>, and any other error of
  the runtime (named by a string).
\<close>

datatype exn =
    HTTPException nat string
  | PrismaClientKnownRequestError string
  | Error string

type_synonym outcome = "exn + response"

text \<open>An error of a runtime call is not an HTTPException and not a Prisma error.\<close>

definition await :: "string + 'a \<Rightarrow> exn + 'a" where
  "await r = (case r of Inl name \<Rightarrow> Inl (Error name) | Inr v \<Rightarrow> Inr v)"

text \<open>
  The status a client sees: the status of the returned response; for a thrown
  HTTPException its status; for any other uncaught error 500 (the spec's
  \<^verbatim>\<open>InternalError\<close>, section 7).
\<close>

fun status_of :: "outcome \<Rightarrow> nat" where
  "status_of (Inr r) = status r"
| "status_of (Inl (HTTPException s m)) = s"
| "status_of (Inl (PrismaClientKnownRequestError c)) = 500"
| "status_of (Inl (Error n)) = 500"

text \<open>The message a client sees: the \<^verbatim>\<open>message\<close> member of the body, or the
  message of the thrown HTTPException.\<close>

fun message_of :: "outcome \<Rightarrow> string option" where
  "message_of (Inr r) =
     (case body r of JObj kvs \<Rightarrow>
        (case map_of kvs ''message'' of Some (JStr m) \<Rightarrow> Some m | _ \<Rightarrow> None)
      | _ \<Rightarrow> None)"
| "message_of (Inl (HTTPException s m)) = Some m"
| "message_of (Inl (PrismaClientKnownRequestError c)) = None"
| "message_of (Inl (Error n)) = None"

subsection \<open>The request body\<close>

text \<open>
  \<^verbatim>\<open>await c.req.json()\<close> throws when the body is not JSON. Of a parsed body the
  handlers read \<^verbatim>\<open>body.email\<close> and \<^verbatim>\<open>body.password\<close>; a member that is absent
  reads as \<^verbatim>\<open>undefined\<close> (\<open>None\<close>).
\<close>

record credentials =
  body_email :: "string option"
  body_password :: "string option"

datatype request_body = NotJson | Json credentials

fun c_req_json :: "request_body \<Rightarrow> exn + credentials" where
  "c_req_json NotJson = Inl (Error ''SyntaxError'')"
| "c_req_json (Json b) = Inr b"

subsection \<open>The user table (Prisma schema of the README)\<close>

text \<open>
  \<^verbatim>\<open>model User { id @id @default(uuid()), email @unique, hashPassword, Account[] }\<close>,
  \<^verbatim>\<open>model Account { id, userId, balance Int @default(0) }\<close>. The accounts of a user
  are kept with the user, as the nested \<^verbatim>\<open>create\<close> and \<^verbatim>\<open>select\<close> see them.
\<close>

record account =
  account_id :: string
  userId :: string
  balance :: int

record user =
  user_id :: string
  email :: string
  hashedPassword :: string
  Account :: "account list"

type_synonym store = "user list"

text \<open>\<^verbatim>\<open>prisma.user.findUnique({ where: { email } })\<close>; an undefined \<^verbatim>\<open>email\<close> is
  rejected by the client (the where-argument needs a value).\<close>

definition find_by_email :: "store \<Rightarrow> string option \<Rightarrow> exn + user option" where
  "find_by_email st em =
     (case em of
        None \<Rightarrow> Inl (Error ''PrismaClientValidationError'')
      | Some e \<Rightarrow> Inr (find (\<lambda>u. email u = e) st))"


text \<open>
  What the database answers to an insert apart from the uniqueness of the email:
  nothing (\<open>None\<close>), or an error it throws for the row, either a known request
  error with its code or any other error (a string the database does not store,
  a lost connection). It is a parameter.
\<close>

datatype db_error = KnownRequest string | Unknown string

fun thrown :: "db_error \<Rightarrow> exn" where
  "thrown (KnownRequest code) = PrismaClientKnownRequestError code"
| "thrown (Unknown name) = Error name"

type_synonym database = "string \<Rightarrow> string \<Rightarrow> db_error option"

text \<open>
  \<^verbatim>\<open>prisma.user.create\<close> with a nested account of balance 0. The two identifiers are
  the uuids the database generates. A missing email is a validation error of
  the client; an error the database throws for the row (email, hash) is passed
  on; \<^verbatim>\<open>email\<close> is \<^verbatim>\<open>@unique\<close>: an email that is already stored is refused with
  the known request error \<^verbatim>\<open>P2002\<close>. In each of these cases the table is left as it
  was.
\<close>

definition user_create ::
  "database \<Rightarrow> string \<Rightarrow> string \<Rightarrow> string option \<Rightarrow> string \<Rightarrow> store \<Rightarrow> exn + (user \<times> store)" where
  "user_create db uid aid em h st =
     (case em of
        None \<Rightarrow> Inl (Error ''PrismaClientValidationError'')
      | Some e \<Rightarrow>
          (case db e h of
             Some err \<Rightarrow> Inl (thrown err)
           | None \<Rightarrow>
               if list_ex (\<lambda>u. email u = e) st
               then Inl (PrismaClientKnownRequestError ''P2002'')
               else
                 let u = \<lparr>user_id = uid, email = e, hashedPassword = h,
                          Account = [\<lparr>account_id = aid, userId = uid, balance = 0\<rparr>]\<rparr>
                 in Inr (u, st @ [u])))"

subsection \<open>The runtime the handlers call\<close>

text \<open>
  \<^verbatim>\<open>Bun.password.hash(pw, {algorithm: "bcrypt", cost: 4})\<close>,
  \<^verbatim>\<open>Bun.password.verify(pw, hash, "bcrypt")\<close> and \<^verbatim>\<open>sign(payload, secret)\<close> of
  hono/jwt. Each returns a value or throws (\<open>Inl\<close>, with the error's name).
\<close>

record payload =
  sub :: string
  exp :: int

record runtime =
  password_hash :: "string option \<Rightarrow> string + string"
  password_verify :: "string option \<Rightarrow> string \<Rightarrow> string + bool"
  sign :: "payload \<Rightarrow> string \<Rightarrow> string + string"

subsection \<open>POST /register\<close>

text \<open>
  The body of the \<^verbatim>\<open>try\<close> block: parse, hash, create, answer. The message is the
  template literal with \<^verbatim>\<open>user.email\<close> filled in (the README prints its dollar sign
  escaped, and describes the response as the success message with the user's
  email).
\<close>

definition register_try ::
  "runtime \<Rightarrow> database \<Rightarrow> string \<Rightarrow> string \<Rightarrow> store \<Rightarrow> request_body
   \<Rightarrow> exn + (response \<times> store)" where
  "register_try rt db uid aid st rb =
     (case c_req_json rb of
        Inl e \<Rightarrow> Inl e
      | Inr b \<Rightarrow>
          (case await (password_hash rt (body_password b)) of
             Inl e \<Rightarrow> Inl e
           | Inr bcryptHash \<Rightarrow>
               (case user_create db uid aid (body_email b) bcryptHash st of
                  Inl e \<Rightarrow> Inl e
                | Inr (u, st') \<Rightarrow>
                    Inr (c_json (JObj [(''message'', JStr (email u @ '' created successfully''))]),
                         st'))))"

text \<open>
  The \<^verbatim>\<open>catch\<close> block: a known request error with code \<^verbatim>\<open>P2002\<close> is answered with
  \<^verbatim>\<open>c.json({message: 'Email already exists'})\<close>; every other error is thrown again.
  The result is the outcome and the table after the request.
\<close>

definition register ::
  "runtime \<Rightarrow> database \<Rightarrow> string \<Rightarrow> string \<Rightarrow> store \<Rightarrow> request_body \<Rightarrow> outcome \<times> store" where
  "register rt db uid aid st rb =
     (case register_try rt db uid aid st rb of
        Inr (r, st') \<Rightarrow> (Inr r, st')
      | Inl e \<Rightarrow>
          (case e of
             PrismaClientKnownRequestError code \<Rightarrow>
               if code = ''P2002''
               then (Inr (c_json (JObj [(''message'', JStr ''Email already exists'')])), st)
               else (Inl e, st)
           | _ \<Rightarrow> (Inl e, st)))"

subsection \<open>POST /login\<close>

text \<open>\<^verbatim>\<open>{ sub: user.id, exp: Math.floor(Date.now() / 1000) + 60 * 60 }\<close>;
  \<^verbatim>\<open>Date.now()\<close> is in milliseconds.\<close>

definition login_payload :: "string \<Rightarrow> int \<Rightarrow> payload" where
  "login_payload uid now_ms = \<lparr>sub = uid, exp = now_ms div 1000 + 60 * 60\<rparr>"

definition secret :: string where
  "secret = ''mySecretKey''"

text \<open>The body of the \<^verbatim>\<open>try\<close> block.\<close>

definition login_try :: "runtime \<Rightarrow> int \<Rightarrow> store \<Rightarrow> request_body \<Rightarrow> outcome" where
  "login_try rt now_ms st rb =
     (case c_req_json rb of
        Inl e \<Rightarrow> Inl e
      | Inr b \<Rightarrow>
          (case find_by_email st (body_email b) of
             Inl e \<Rightarrow> Inl e
           | Inr None \<Rightarrow> Inr (c_json (JObj [(''message'', JStr ''User not found'')]))
           | Inr (Some u) \<Rightarrow>
               (case await (password_verify rt (body_password b) (hashedPassword u)) of
                  Inl e \<Rightarrow> Inl e
                | Inr match \<Rightarrow>
                    if match
                    then
                      (case await (sign rt (login_payload (user_id u) now_ms) secret) of
                         Inl e \<Rightarrow> Inl e
                       | Inr token \<Rightarrow>
                           Inr (c_json (JObj [(''message'', JStr ''Login successful''),
                                              (''token'', JStr token)])))
                    else Inl (HTTPException 401 ''Invalid credentials''))))"

text \<open>The \<^verbatim>\<open>catch\<close> block replaces whatever was thrown.\<close>

definition login :: "runtime \<Rightarrow> int \<Rightarrow> store \<Rightarrow> request_body \<Rightarrow> outcome" where
  "login rt now_ms st rb =
     (case login_try rt now_ms st rb of
        Inl error \<Rightarrow> Inl (HTTPException 401 ''Invalid credentials'')
      | Inr r \<Rightarrow> Inr r)"

subsection \<open>GET /protected/account/balance\<close>



section \<open>The components behind the handlers, from the specification\<close>

text \<open>
  The password hasher (\<^verbatim>\<open>Bun.password\<close>), the signing and the verification of
  tokens and the middleware \<^verbatim>\<open>jwt({secret})\<close> on \<^verbatim>\<open>/protected/*\<close> (hono/jwt) are
  called by the README's code but their code is not in the repository. They are
  modelled from sections 4 and 6 of the specification. The one-way function of
  the hasher, the serialisation of the claims and the signature function are
  parameters. The claims of a token are built by login, in the README.
\<close>

subsection \<open>Constant-time comparison\<close>

text \<open>
  Modelled from the spec: the comparison of sections 4.1 and 4.3, whose code is
  missing. It never stops at the first difference: it folds the exclusive-or of
  every pair of characters into one accumulator and looks at the accumulator at
  the end.
\<close>

definition ct_accumulate :: "string \<Rightarrow> string \<Rightarrow> nat" where
  "ct_accumulate xs ys =
     fold (\<lambda>(x, y) acc. acc OR (of_char x XOR of_char y)) (zip xs ys) 0"

text \<open>Modelled from the spec: two strings compare equal in constant time when they
  have the same length and the accumulator stays 0.\<close>

definition constant_time_eq :: "string \<Rightarrow> string \<Rightarrow> bool" where
  "constant_time_eq xs ys = (length xs = length ys \<and> ct_accumulate xs ys = 0)"

subsection \<open>PasswordHasher (section 4.1)\<close>






subsection \<open>Signing and verifying tokens (sections 4.2, 4.3 and 6)\<close>

text \<open>
  The wire format is three segments joined by a dot: encoded header, encoded
  claims, signature. How the header and the claims are encoded (base64url of
  JSON) and how the signature is computed from the key are parameters.
\<close>

record jwt_scheme =
  header_segment :: string
  valid_header :: "string \<Rightarrow> bool"
  encode_claims :: "payload \<Rightarrow> string"
  decode_claims :: "string \<Rightarrow> payload option"
  mac :: "string \<Rightarrow> string \<Rightarrow> string"

text \<open>Modelled from the spec: cutting the token at the fixed delimiter.\<close>

fun split_on :: "char \<Rightarrow> string \<Rightarrow> string list" where
  "split_on d [] = [[]]"
| "split_on d (x # xs) =
     (if x = d then [] # split_on d xs
      else (case split_on d xs of
              [] \<Rightarrow> [[x]]
            | w # ws \<Rightarrow> (x # w) # ws))"

text \<open>
  Modelled from the spec: \<^verbatim>\<open>sign(payload, secret)\<close> of hono/jwt, the serialising and
  signing half of the TokenIssuer of section 4.2. The claims it is given are
  built by the caller (login, in the README); it serialises them and signs
  header and claims with the key.
\<close>

definition sign_token :: "jwt_scheme \<Rightarrow> payload \<Rightarrow> string \<Rightarrow> string" where
  "sign_token sch claims key =
     (let h = header_segment sch;
          c = encode_claims sch claims
      in h @ ''.'' @ c @ ''.'' @ mac sch key (h @ ''.'' @ c))"

datatype token_error = Malformed | SignatureInvalid | Expired

text \<open>
  Modelled from the spec: \<^verbatim>\<open>verify(token)\<close> of the missing TokenVerifier, in the
  order of section 4.3: the three-part structure and the encodings
  (\<^verbatim>\<open>Malformed\<close>), the signature recomputed over header and claims and compared
  in constant time (\<^verbatim>\<open>SignatureInvalid\<close>), then \<^verbatim>\<open>exp\<close> against the current time
  (\<^verbatim>\<open>Expired\<close> when the time is at or past \<^verbatim>\<open>exp\<close>); the result is \<^verbatim>\<open>sub\<close>.
\<close>

definition verify_token :: "jwt_scheme \<Rightarrow> string \<Rightarrow> int \<Rightarrow> string \<Rightarrow> token_error + string" where
  "verify_token sch key now token =
     (case split_on CHR ''.'' token of
        [h, c, g] \<Rightarrow>
          if \<not> valid_header sch h then Inl Malformed
          else
            (case decode_claims sch c of
               None \<Rightarrow> Inl Malformed
             | Some claims \<Rightarrow>
                 if \<not> constant_time_eq (mac sch key (h @ ''.'' @ c)) g then Inl SignatureInvalid
                 else if exp claims \<le> now then Inl Expired
                 else Inr (sub claims))
      | _ \<Rightarrow> Inl Malformed)"


subsection \<open>AuthorizationGate (section 4.4)\<close>

record request =
  authorization :: "string option"

record auth_context =
  subjectId :: string

datatype gate_state =
    Unauthenticated
  | TokenExtracted string
  | Authorized auth_context
  | Rejected

text \<open>Modelled from the spec: the well-formed header value \<^verbatim>\<open>Bearer <token>\<close>.\<close>

definition bearer_token :: "string \<Rightarrow> string option" where
  "bearer_token v =
     (if take 7 v = ''Bearer '' \<and> drop 7 v \<noteq> [] then Some (drop 7 v) else None)"

text \<open>
  Modelled from the spec: the transitions of the missing gate. From
  \<^verbatim>\<open>Unauthenticated\<close> a well-formed bearer header leads to \<^verbatim>\<open>TokenExtracted\<close>, from
  there a token that verifies leads to \<^verbatim>\<open>Authorized\<close>; every failure leads to
  \<^verbatim>\<open>Rejected\<close>; the two last states are terminal.
\<close>

fun gate_step :: "jwt_scheme \<Rightarrow> string \<Rightarrow> int \<Rightarrow> request \<Rightarrow> gate_state \<Rightarrow> gate_state" where
  "gate_step sch key now req Unauthenticated =
     (case authorization req of
        None \<Rightarrow> Rejected
      | Some v \<Rightarrow> (case bearer_token v of None \<Rightarrow> Rejected | Some t \<Rightarrow> TokenExtracted t))"
| "gate_step sch key now req (TokenExtracted t) =
     (case verify_token sch key now t of
        Inl err \<Rightarrow> Rejected
      | Inr subject \<Rightarrow> Authorized \<lparr>subjectId = subject\<rparr>)"
| "gate_step sch key now req (Authorized ctx) = Authorized ctx"
| "gate_step sch key now req Rejected = Rejected"

text \<open>Modelled from the spec: the machine is run afresh for each request, two steps
  from \<^verbatim>\<open>Unauthenticated\<close>.\<close>

definition gate :: "jwt_scheme \<Rightarrow> string \<Rightarrow> int \<Rightarrow> request \<Rightarrow> gate_state" where
  "gate sch key now req = gate_step sch key now req (gate_step sch key now req Unauthenticated)"

text \<open>
  Modelled from the spec: a protected route. On \<^verbatim>\<open>Authorized\<close> the request goes on
  to the handler with the context; otherwise the answer is
  \<^verbatim>\<open>401 {message: "Unauthorized"}\<close> and the handler is not called. The handler
  works on a state \<open>'s\<close> (whatever it reads and writes), which a rejected request
  leaves as it was.
\<close>

definition protected ::
  "jwt_scheme \<Rightarrow> string \<Rightarrow> int \<Rightarrow> (auth_context \<Rightarrow> 's \<Rightarrow> outcome \<times> 's) \<Rightarrow> request \<Rightarrow> 's
   \<Rightarrow> outcome \<times> 's" where
  "protected sch key now handler req s =
     (case gate sch key now req of
        Authorized ctx \<Rightarrow> handler ctx s
      | _ \<Rightarrow> (Inr \<lparr>status = 401, body = JObj [(''message'', JStr ''Unauthorized'')]\<rparr>, s))"

section \<open>Stand-ins for concrete requests\<close>

text \<open>
  For evaluating the definitions on concrete requests. None of them is
  cryptography; they make the hypotheses of the theorems below checkable on
  concrete values.

  A token scheme that writes the claims as the subject, a tilde and \<^verbatim>\<open>exp\<close> in
  unary and signs by joining key and input without the dots.
\<close>

definition sample_scheme :: jwt_scheme where
  "sample_scheme =
     \<lparr>header_segment = ''hdr'',
      valid_header = (\<lambda>h. h = ''hdr''),
      encode_claims = (\<lambda>c. sub c @ ''~'' @ replicate (nat (exp c)) CHR ''1''),
      decode_claims =
        (\<lambda>s. if CHR ''~'' \<in> set s
             then Some \<lparr>sub = takeWhile (\<lambda>x. x \<noteq> CHR ''~'') s,
                        exp = int (length (dropWhile (\<lambda>x. x \<noteq> CHR ''~'') s)) - 1\<rparr>
             else None),
      mac = (\<lambda>k m. filter (\<lambda>x. x \<noteq> CHR ''.'') (k @ m))\<rparr>"

text \<open>
  A runtime whose hash is a tagged copy of the password and, as
  \<^verbatim>\<open>Bun.password.hash\<close> does, throws on a missing or empty password, and whose
  \<^verbatim>\<open>sign\<close> is the signing of the scheme above; a table with one user, registered
  with password \<^verbatim>\<open>pw123456\<close>.
\<close>

definition sample_runtime :: runtime where
  "sample_runtime =
     \<lparr>password_hash =
        (\<lambda>pw. case pw of
                None \<Rightarrow> Inl ''TypeError''
              | Some p \<Rightarrow> if p = [] then Inl ''Error'' else Inr (''$2b$04$'' @ p)),
      password_verify =
        (\<lambda>pw h. case pw of None \<Rightarrow> Inl ''TypeError'' | Some p \<Rightarrow> Inr (h = ''$2b$04$'' @ p)),
      sign = (\<lambda>p k. Inr (sign_token sample_scheme p k))\<rparr>"

definition sample_store :: store where
  "sample_store =
     [\<lparr>user_id = ''u1'', email = ''a@b.com'', hashedPassword = ''$2b$04$pw123456'',
       Account = [\<lparr>account_id = ''acc1'', userId = ''u1'', balance = 0\<rparr>]\<rparr>]"

text \<open>A database that, as PostgreSQL does, refuses a string with a NUL character
  and takes every other row.\<close>

definition sample_database :: database where
  "sample_database e h =
     (if CHR 0x00 \<in> set e \<or> CHR 0x00 \<in> set h
      then Some (Unknown ''invalid byte sequence for encoding UTF8: 0x00'')
      else None)"



definition logging_handler :: "auth_context \<Rightarrow> string list \<Rightarrow> outcome \<times> string list" where
  "logging_handler ctx log =
     (Inr (c_json (JObj [(''data'', JStr (subjectId ctx))])), subjectId ctx # log)"

section \<open>Properties\<close>

subsection \<open>Helper facts about the handlers\<close>

lemmas handler_defs =
  login_def login_try_def find_by_email_def await_def c_json_def
  register_def register_try_def user_create_def Let_def

lemmas sample_defs = sample_runtime_def sample_store_def

lemma login_status:
  "status_of (login rt now_ms st rb) = 200 \<or> status_of (login rt now_ms st rb) = 401"
  by (auto simp: login_def login_try_def c_json_def split: sum.splits option.splits if_splits)

lemma find_in_set: "find P xs = Some x \<Longrightarrow> x \<in> set xs"
  by (induction xs) (auto split: if_splits)


subsection \<open>The constant-time comparison is equality\<close>

lemma xor_nat_eq_0_iff: "(a::nat) XOR b = 0 \<longleftrightarrow> a = b"
  by (metis xor_self_eq xor.right_neutral xor.assoc)

lemma fold_or_xor_eq_0_iff:
  "fold (\<lambda>(x, y) acc. acc OR (of_char x XOR of_char y)) zs (a::nat) = 0
   \<longleftrightarrow> a = 0 \<and> (\<forall>(x, y) \<in> set zs. x = y)"
proof (induction zs arbitrary: a)
  case Nil
  then show ?case by simp
next
  case (Cons z zs)
  obtain x y where z: "z = (x, y)" by (cases z)
  show ?case
    by (auto simp: z Cons.IH or_eq_0_iff xor_nat_eq_0_iff)
qed

lemma constant_time_eq_iff: "constant_time_eq xs ys \<longleftrightarrow> xs = ys"
  by (simp add: constant_time_eq_def ct_accumulate_def fold_or_xor_eq_0_iff
      list_eq_iff_zip_eq [of xs ys])

subsection \<open>Login\<close>

text \<open>
  C1. The claim: a login with an email that is not in the table and a login with
  a stored email and a wrong password give the same status (401) and the same
  message (\<^verbatim>\<open>Invalid credentials\<close>). The handler does not: for the unknown email
  it returns \<^verbatim>\<open>c.json({message: "User not found"})\<close>, status 200, from inside the
  \<^verbatim>\<open>try\<close> block, and only the wrong password reaches the 401. The README's
  security notes (generic error messages, consistent error responses) and the
  reflection (errors must not tell whether an email exists) say what the claim
  says. Evaluated on the one-user table:
\<close>

theorem login_unknown_email_distinguishable:
  "login sample_runtime 0 sample_store
     (Json \<lparr>body_email = Some ''nobody@b.com'', body_password = Some ''pw123456''\<rparr>)
   = Inr \<lparr>status = 200, body = JObj [(''message'', JStr ''User not found'')]\<rparr>
   \<and> login sample_runtime 0 sample_store
     (Json \<lparr>body_email = Some ''a@b.com'', body_password = Some ''wrong''\<rparr>)
   = Inl (HTTPException 401 ''Invalid credentials'')
   \<and> status_of (login sample_runtime 0 sample_store
        (Json \<lparr>body_email = Some ''nobody@b.com'', body_password = Some ''pw123456''\<rparr>)) = 200
   \<and> status_of (login sample_runtime 0 sample_store
        (Json \<lparr>body_email = Some ''a@b.com'', body_password = Some ''wrong''\<rparr>)) = 401
   \<and> message_of (login sample_runtime 0 sample_store
        (Json \<lparr>body_email = Some ''nobody@b.com'', body_password = Some ''pw123456''\<rparr>))
      = Some ''User not found''
   \<and> message_of (login sample_runtime 0 sample_store
        (Json \<lparr>body_email = Some ''a@b.com'', body_password = Some ''wrong''\<rparr>))
      = Some ''Invalid credentials''"
  by (simp add: handler_defs sample_defs)

text \<open>
  C10. Whatever is thrown inside the \<^verbatim>\<open>try\<close> block of login is replaced by
  \<^verbatim>\<open>HTTPException(401, "Invalid credentials")\<close>: in general, and for a body that
  is not JSON, for a password verification that throws, and for the rejection
  of a wrong password. No login is answered with 400 or 500.
\<close>

theorem login_exception_is_401:
  "(login_try rt now_ms st rb = Inl e \<longrightarrow>
      login rt now_ms st rb = Inl (HTTPException 401 ''Invalid credentials''))
   \<and> login rt now_ms st NotJson = Inl (HTTPException 401 ''Invalid credentials'')
   \<and> (find_by_email st (body_email b1) = Inr (Some u1)
        \<and> password_verify rt (body_password b1) (hashedPassword u1) = Inl err \<longrightarrow>
      login rt now_ms st (Json b1) = Inl (HTTPException 401 ''Invalid credentials''))
   \<and> (find_by_email st (body_email b2) = Inr (Some u2)
        \<and> password_verify rt (body_password b2) (hashedPassword u2) = Inr False \<longrightarrow>
      login rt now_ms st (Json b2) = Inl (HTTPException 401 ''Invalid credentials''))
   \<and> status_of (login rt now_ms st rb) \<noteq> 400
   \<and> status_of (login rt now_ms st rb) \<noteq> 500"
  using login_status [of rt now_ms st rb]
  by (auto simp: login_def login_try_def await_def)

theorem login_exception_is_401_witness:
  "login_try sample_runtime 0 sample_store NotJson = Inl (Error ''SyntaxError'')
   \<and> login sample_runtime 0 sample_store NotJson = Inl (HTTPException 401 ''Invalid credentials'')
   \<and> find_by_email sample_store (body_email \<lparr>body_email = Some ''a@b.com'', body_password = None\<rparr>)
       = Inr (Some (hd sample_store))
   \<and> password_verify sample_runtime
        (body_password \<lparr>body_email = Some ''a@b.com'', body_password = None\<rparr>)
        (hashedPassword (hd sample_store)) = Inl ''TypeError''
   \<and> login sample_runtime 0 sample_store
        (Json \<lparr>body_email = Some ''a@b.com'', body_password = None\<rparr>)
       = Inl (HTTPException 401 ''Invalid credentials'')
   \<and> find_by_email sample_store (body_email \<lparr>body_email = Some ''a@b.com'', body_password = Some ''wrong''\<rparr>)
       = Inr (Some (hd sample_store))
   \<and> password_verify sample_runtime
        (body_password \<lparr>body_email = Some ''a@b.com'', body_password = Some ''wrong''\<rparr>)
        (hashedPassword (hd sample_store)) = Inr False
   \<and> login sample_runtime 0 sample_store
        (Json \<lparr>body_email = Some ''a@b.com'', body_password = Some ''wrong''\<rparr>)
       = Inl (HTTPException 401 ''Invalid credentials'')"
  using login_exception_is_401
    [of sample_runtime 0 sample_store NotJson "Error ''SyntaxError''"
        "\<lparr>body_email = Some ''a@b.com'', body_password = None\<rparr>" "hd sample_store" "''TypeError''"
        "\<lparr>body_email = Some ''a@b.com'', body_password = Some ''wrong''\<rparr>" "hd sample_store"]
  by (simp add: login_try_def find_by_email_def sample_defs)

subsection \<open>The balance handler\<close>



subsection \<open>The authorization gate\<close>

lemma take_bearer: "take 7 (''Bearer '' @ t) = ''Bearer ''"
  by simp

lemma drop_bearer: "drop 7 (''Bearer '' @ t) = t"
  by simp

lemma bearer_token_prefix: "t \<noteq> [] \<Longrightarrow> bearer_token (''Bearer '' @ t) = Some t"
  unfolding bearer_token_def by (simp only: take_bearer drop_bearer simp_thms if_True)

lemma bearer_token_empty: "bearer_token (''Bearer '' @ []) = None"
  unfolding bearer_token_def by (simp only: take_bearer drop_bearer simp_thms if_False)

lemma bearer_token_Some:
  assumes "bearer_token v = Some t"
  shows "v = ''Bearer '' @ t"
proof -
  have "take 7 v = ''Bearer '' \<and> drop 7 v = t"
    using assms
    by (auto simp only: bearer_token_def option.simps split: if_splits)
  then have "take 7 v @ drop 7 v = ''Bearer '' @ t"
    by (simp only:)
  then show ?thesis
    by (simp only: append_take_drop_id)
qed

lemma bearer_token_wrong_scheme: "take 7 v \<noteq> ''Bearer '' \<Longrightarrow> bearer_token v = None"
  unfolding bearer_token_def by (simp only: simp_thms if_False)

lemma verify_token_Nil: "verify_token sch key now [] = Inl Malformed"
  by (simp add: verify_token_def)

lemma gate_no_header: "authorization req = None \<Longrightarrow> gate sch key now req = Rejected"
  by (simp add: gate_def)

lemma gate_no_bearer:
  "authorization req = Some v \<Longrightarrow> bearer_token v = None \<Longrightarrow> gate sch key now req = Rejected"
  by (simp add: gate_def)

lemma gate_bearer:
  "authorization req = Some v \<Longrightarrow> bearer_token v = Some t \<Longrightarrow>
   gate sch key now req =
     (case verify_token sch key now t of
        Inl err \<Rightarrow> Rejected
      | Inr subject \<Rightarrow> Authorized \<lparr>subjectId = subject\<rparr>)"
  by (simp add: gate_def)

lemma protected_rejected:
  "gate sch key now req = Rejected \<Longrightarrow>
   protected sch key now handler req s
   = (Inr \<lparr>status = 401, body = JObj [(''message'', JStr ''Unauthorized'')]\<rparr>, s)"
  by (simp add: protected_def)

lemma protected_authorized:
  "gate sch key now req = Authorized ctx \<Longrightarrow>
   protected sch key now handler req s = handler ctx s"
  by (simp add: protected_def)

lemma gate_bearer_failure:
  assumes "authorization req = Some (''Bearer '' @ t)" "verify_token sch key now t = Inl err"
  shows "gate sch key now req = Rejected"
proof (cases "t = []")
  case True
  have "bearer_token (''Bearer '' @ t) = None"
    unfolding True by (rule bearer_token_empty)
  then show ?thesis
    by (rule gate_no_bearer [OF assms(1)])
next
  case False
  then have "bearer_token (''Bearer '' @ t) = Some t"
    by (rule bearer_token_prefix)
  from gate_bearer [OF assms(1) this, of sch key now] assms(2) show ?thesis
    by simp
qed

lemma gate_bearer_success:
  assumes "authorization req = Some (''Bearer '' @ t)" "verify_token sch key now t = Inr subject"
  shows "gate sch key now req = Authorized \<lparr>subjectId = subject\<rparr>"
proof -
  have "t \<noteq> []"
    using assms(2) verify_token_Nil [of sch key now] by auto
  then have "bearer_token (''Bearer '' @ t) = Some t"
    by (rule bearer_token_prefix)
  from gate_bearer [OF assms(1) this, of sch key now] assms(2) show ?thesis
    by simp
qed

lemma gate_cases:
  "gate sch key now req = Rejected
   \<or> (\<exists>t subject. authorization req = Some (''Bearer '' @ t)
        \<and> verify_token sch key now t = Inr subject
        \<and> gate sch key now req = Authorized \<lparr>subjectId = subject\<rparr>)"
proof (cases "authorization req")
  case None
  then show ?thesis by (simp add: gate_no_header)
next
  case (Some v)
  note hdr = this
  show ?thesis
  proof (cases "bearer_token v")
    case None
    with hdr show ?thesis by (simp add: gate_no_bearer)
  next
    case (Some t)
    then have v: "v = ''Bearer '' @ t" by (rule bearer_token_Some)
    have g: "gate sch key now req =
       (case verify_token sch key now t of
          Inl err \<Rightarrow> Rejected
        | Inr subject \<Rightarrow> Authorized \<lparr>subjectId = subject\<rparr>)"
      by (rule gate_bearer [OF hdr Some])
    show ?thesis
    proof (cases "verify_token sch key now t")
      case (Inl err)
      with g show ?thesis by simp
    next
      case (Inr subject)
      with g have "gate sch key now req = Authorized \<lparr>subjectId = subject\<rparr>" by simp
      moreover have "authorization req = Some (''Bearer '' @ t)"
        unfolding hdr v ..
      ultimately show ?thesis using Inr by blast
    qed
  qed
qed

text \<open>
  C3. On a protected route, a request without an Authorization header, with
  another scheme than \<^verbatim>\<open>Bearer\<close>, or with a token whose verification fails as
  \<^verbatim>\<open>Malformed\<close>, \<^verbatim>\<open>SignatureInvalid\<close> or \<^verbatim>\<open>Expired\<close> is answered
  \<^verbatim>\<open>401 {message: "Unauthorized"}\<close>, the same for every cause and for every
  handler, and the state the handler works on is untouched: the handler is not
  run. A request whose token verifies is handed to the handler with the verified
  subject as \<^verbatim>\<open>subjectId\<close>. There is no third case: the handler is reached only
  with a bearer token that verifies.
\<close>

theorem gate_uniform_rejection:
  "(authorization r1 = None \<longrightarrow>
      protected sch key now handler r1 s
      = (Inr \<lparr>status = 401, body = JObj [(''message'', JStr ''Unauthorized'')]\<rparr>, s))
   \<and> (authorization r2 = Some v2 \<and> take 7 v2 \<noteq> ''Bearer '' \<longrightarrow>
      protected sch key now handler r2 s
      = (Inr \<lparr>status = 401, body = JObj [(''message'', JStr ''Unauthorized'')]\<rparr>, s))
   \<and> (authorization r3 = Some (''Bearer '' @ t3) \<and> verify_token sch key now t3 = Inl Malformed \<longrightarrow>
      protected sch key now handler r3 s
      = (Inr \<lparr>status = 401, body = JObj [(''message'', JStr ''Unauthorized'')]\<rparr>, s))
   \<and> (authorization r4 = Some (''Bearer '' @ t4)
        \<and> verify_token sch key now t4 = Inl SignatureInvalid \<longrightarrow>
      protected sch key now handler r4 s
      = (Inr \<lparr>status = 401, body = JObj [(''message'', JStr ''Unauthorized'')]\<rparr>, s))
   \<and> (authorization r5 = Some (''Bearer '' @ t5) \<and> verify_token sch key now t5 = Inl Expired \<longrightarrow>
      protected sch key now handler r5 s
      = (Inr \<lparr>status = 401, body = JObj [(''message'', JStr ''Unauthorized'')]\<rparr>, s))
   \<and> (authorization r6 = Some (''Bearer '' @ t6) \<and> verify_token sch key now t6 = Inr subject \<longrightarrow>
      protected sch key now handler r6 s = handler \<lparr>subjectId = subject\<rparr> s)
   \<and> (protected sch key now handler req s
        = (Inr \<lparr>status = 401, body = JObj [(''message'', JStr ''Unauthorized'')]\<rparr>, s)
       \<or> (\<exists>t subject'. authorization req = Some (''Bearer '' @ t)
             \<and> verify_token sch key now t = Inr subject'
             \<and> protected sch key now handler req s = handler \<lparr>subjectId = subject'\<rparr> s))"
proof (intro conjI impI)
  assume "authorization r1 = None"
  then show "protected sch key now handler r1 s
      = (Inr \<lparr>status = 401, body = JObj [(''message'', JStr ''Unauthorized'')]\<rparr>, s)"
    by (intro protected_rejected gate_no_header)
next
  assume a: "authorization r2 = Some v2 \<and> take 7 v2 \<noteq> ''Bearer ''"
  then have "bearer_token v2 = None"
    by (intro bearer_token_wrong_scheme) (rule conjunct2)
  with a show "protected sch key now handler r2 s
      = (Inr \<lparr>status = 401, body = JObj [(''message'', JStr ''Unauthorized'')]\<rparr>, s)"
    by (intro protected_rejected gate_no_bearer [of r2 v2]) (rule conjunct1)
next
  assume "authorization r3 = Some (''Bearer '' @ t3) \<and> verify_token sch key now t3 = Inl Malformed"
  then show "protected sch key now handler r3 s
      = (Inr \<lparr>status = 401, body = JObj [(''message'', JStr ''Unauthorized'')]\<rparr>, s)"
    by (intro protected_rejected gate_bearer_failure [of r3 t3 sch key now Malformed])
       (erule conjunct1, erule conjunct2)
next
  assume "authorization r4 = Some (''Bearer '' @ t4)
    \<and> verify_token sch key now t4 = Inl SignatureInvalid"
  then show "protected sch key now handler r4 s
      = (Inr \<lparr>status = 401, body = JObj [(''message'', JStr ''Unauthorized'')]\<rparr>, s)"
    by (intro protected_rejected gate_bearer_failure [of r4 t4 sch key now SignatureInvalid])
       (erule conjunct1, erule conjunct2)
next
  assume "authorization r5 = Some (''Bearer '' @ t5) \<and> verify_token sch key now t5 = Inl Expired"
  then show "protected sch key now handler r5 s
      = (Inr \<lparr>status = 401, body = JObj [(''message'', JStr ''Unauthorized'')]\<rparr>, s)"
    by (intro protected_rejected gate_bearer_failure [of r5 t5 sch key now Expired])
       (erule conjunct1, erule conjunct2)
next
  assume "authorization r6 = Some (''Bearer '' @ t6) \<and> verify_token sch key now t6 = Inr subject"
  then show "protected sch key now handler r6 s = handler \<lparr>subjectId = subject\<rparr> s"
    by (intro protected_authorized gate_bearer_success [of r6 t6 sch key now subject])
       (erule conjunct1, erule conjunct2)
next
  from gate_cases [of sch key now req]
  show "protected sch key now handler req s
        = (Inr \<lparr>status = 401, body = JObj [(''message'', JStr ''Unauthorized'')]\<rparr>, s)
       \<or> (\<exists>t subject'. authorization req = Some (''Bearer '' @ t)
             \<and> verify_token sch key now t = Inr subject'
             \<and> protected sch key now handler req s = handler \<lparr>subjectId = subject'\<rparr> s)"
  proof
    assume "gate sch key now req = Rejected"
    then show ?thesis by (intro disjI1 protected_rejected)
  next
    assume "\<exists>t subject. authorization req = Some (''Bearer '' @ t)
        \<and> verify_token sch key now t = Inr subject
        \<and> gate sch key now req = Authorized \<lparr>subjectId = subject\<rparr>"
    then obtain t subject' where
      "authorization req = Some (''Bearer '' @ t)"
      "verify_token sch key now t = Inr subject'"
      "gate sch key now req = Authorized \<lparr>subjectId = subject'\<rparr>"
      by blast
    then show ?thesis
      using protected_authorized [of sch key now req "\<lparr>subjectId = subject'\<rparr>" handler s]
      by blast
  qed
qed

lemma sample_malformed: "verify_token sample_scheme ''k'' 2 ''abc'' = Inl Malformed"
  by (simp add: verify_token_def)

lemma sample_bad_signature:
  "verify_token sample_scheme ''k'' 2 ''hdr.u1~111.bad'' = Inl SignatureInvalid"
  by (simp add: verify_token_def sample_scheme_def constant_time_eq_iff)

lemma sample_expired: "verify_token sample_scheme ''k'' 2 ''hdr.u1~1.khdru1~1'' = Inl Expired"
  by (simp add: verify_token_def sample_scheme_def constant_time_eq_iff)

lemma sample_valid: "verify_token sample_scheme ''k'' 2 ''hdr.u1~111.khdru1~111'' = Inr ''u1''"
  by (simp add: verify_token_def sample_scheme_def constant_time_eq_iff)

theorem gate_uniform_rejection_witness:
  "protected sample_scheme ''k'' 2 logging_handler \<lparr>authorization = None\<rparr> []
     = (Inr \<lparr>status = 401, body = JObj [(''message'', JStr ''Unauthorized'')]\<rparr>, [])
   \<and> protected sample_scheme ''k'' 2 logging_handler \<lparr>authorization = Some ''Basic abc''\<rparr> []
     = (Inr \<lparr>status = 401, body = JObj [(''message'', JStr ''Unauthorized'')]\<rparr>, [])
   \<and> verify_token sample_scheme ''k'' 2 ''abc'' = Inl Malformed
   \<and> protected sample_scheme ''k'' 2 logging_handler
        \<lparr>authorization = Some (''Bearer '' @ ''abc'')\<rparr> []
     = (Inr \<lparr>status = 401, body = JObj [(''message'', JStr ''Unauthorized'')]\<rparr>, [])
   \<and> verify_token sample_scheme ''k'' 2 ''hdr.u1~111.bad'' = Inl SignatureInvalid
   \<and> protected sample_scheme ''k'' 2 logging_handler
        \<lparr>authorization = Some (''Bearer '' @ ''hdr.u1~111.bad'')\<rparr> []
     = (Inr \<lparr>status = 401, body = JObj [(''message'', JStr ''Unauthorized'')]\<rparr>, [])
   \<and> verify_token sample_scheme ''k'' 2 ''hdr.u1~1.khdru1~1'' = Inl Expired
   \<and> protected sample_scheme ''k'' 2 logging_handler
        \<lparr>authorization = Some (''Bearer '' @ ''hdr.u1~1.khdru1~1'')\<rparr> []
     = (Inr \<lparr>status = 401, body = JObj [(''message'', JStr ''Unauthorized'')]\<rparr>, [])
   \<and> verify_token sample_scheme ''k'' 2 ''hdr.u1~111.khdru1~111'' = Inr ''u1''
   \<and> protected sample_scheme ''k'' 2 logging_handler
        \<lparr>authorization = Some (''Bearer '' @ ''hdr.u1~111.khdru1~111'')\<rparr> []
     = logging_handler \<lparr>subjectId = ''u1''\<rparr> []"
proof -
  note G = gate_uniform_rejection
    [where sch = sample_scheme and key = "''k''" and now = 2 and handler = logging_handler
       and s = "[]"
       and ?r1.0 = "\<lparr>authorization = None\<rparr>"
       and ?r2.0 = "\<lparr>authorization = Some ''Basic abc''\<rparr>" and ?v2.0 = "''Basic abc''"
       and ?r3.0 = "\<lparr>authorization = Some (''Bearer '' @ ''abc'')\<rparr>" and ?t3.0 = "''abc''"
       and ?r4.0 = "\<lparr>authorization = Some (''Bearer '' @ ''hdr.u1~111.bad'')\<rparr>"
       and ?t4.0 = "''hdr.u1~111.bad''"
       and ?r5.0 = "\<lparr>authorization = Some (''Bearer '' @ ''hdr.u1~1.khdru1~1'')\<rparr>"
       and ?t5.0 = "''hdr.u1~1.khdru1~1''"
       and ?r6.0 = "\<lparr>authorization = Some (''Bearer '' @ ''hdr.u1~111.khdru1~111'')\<rparr>"
       and ?t6.0 = "''hdr.u1~111.khdru1~111''" and subject = "''u1''"
       and req = "\<lparr>authorization = None\<rparr>"]
  have 1: "protected sample_scheme ''k'' 2 logging_handler \<lparr>authorization = None\<rparr> []
     = (Inr \<lparr>status = 401, body = JObj [(''message'', JStr ''Unauthorized'')]\<rparr>, [])"
    using G by simp
  have 2: "protected sample_scheme ''k'' 2 logging_handler \<lparr>authorization = Some ''Basic abc''\<rparr> []
     = (Inr \<lparr>status = 401, body = JObj [(''message'', JStr ''Unauthorized'')]\<rparr>, [])"
    using G by simp
  have 3: "protected sample_scheme ''k'' 2 logging_handler
        \<lparr>authorization = Some (''Bearer '' @ ''abc'')\<rparr> []
     = (Inr \<lparr>status = 401, body = JObj [(''message'', JStr ''Unauthorized'')]\<rparr>, [])"
    using G sample_malformed by simp
  have 4: "protected sample_scheme ''k'' 2 logging_handler
        \<lparr>authorization = Some (''Bearer '' @ ''hdr.u1~111.bad'')\<rparr> []
     = (Inr \<lparr>status = 401, body = JObj [(''message'', JStr ''Unauthorized'')]\<rparr>, [])"
    using G sample_bad_signature by simp
  have 5: "protected sample_scheme ''k'' 2 logging_handler
        \<lparr>authorization = Some (''Bearer '' @ ''hdr.u1~1.khdru1~1'')\<rparr> []
     = (Inr \<lparr>status = 401, body = JObj [(''message'', JStr ''Unauthorized'')]\<rparr>, [])"
    using G sample_expired by simp
  have 6: "protected sample_scheme ''k'' 2 logging_handler
        \<lparr>authorization = Some (''Bearer '' @ ''hdr.u1~111.khdru1~111'')\<rparr> []
     = logging_handler \<lparr>subjectId = ''u1''\<rparr> []"
    using G sample_valid by simp
  show ?thesis
    by (intro conjI;
        fact 1 2 3 4 5 6 sample_malformed sample_bad_signature sample_expired sample_valid)
qed

subsection \<open>Registration\<close>

lemma register_status:
  "status_of (fst (register rt db uid aid st rb)) = 200
   \<or> status_of (fst (register rt db uid aid st rb)) = 500"
proof (cases rb)
  case NotJson
  then show ?thesis by (simp add: handler_defs)
next
  case (Json b)
  show ?thesis
  proof (cases "password_hash rt (body_password b)")
    case (Inl n)
    with Json show ?thesis by (simp add: handler_defs)
  next
    case (Inr h)
    show ?thesis
    proof (cases "body_email b")
      case None
      with Json Inr show ?thesis by (simp add: handler_defs)
    next
      case (Some e)
      show ?thesis
      proof (cases "db e h")
        case None
        with Json Inr Some show ?thesis by (simp add: handler_defs)
      next
        case (Some err)
        with Json Inr \<open>body_email b = Some e\<close> show ?thesis
          by (cases err) (simp_all add: handler_defs)
      qed
    qed
  qed
qed

lemma register_known_email:
  "password_hash rt pw = Inr h \<Longrightarrow> db e h = None \<Longrightarrow> e \<in> email ` set st \<Longrightarrow>
   register rt db uid aid st (Json \<lparr>body_email = Some e, body_password = pw\<rparr>)
   = (Inr \<lparr>status = 200, body = JObj [(''message'', JStr ''Email already exists'')]\<rparr>, st)"
  by (auto simp: handler_defs list_ex_iff)

lemma register_fresh_email:
  "password_hash rt pw = Inr h \<Longrightarrow> db e h = None \<Longrightarrow> e \<notin> email ` set st \<Longrightarrow>
   register rt db uid aid st (Json \<lparr>body_email = Some e, body_password = pw\<rparr>)
   = (Inr \<lparr>status = 200, body = JObj [(''message'', JStr (e @ '' created successfully''))]\<rparr>,
      st @ [\<lparr>user_id = uid, email = e, hashedPassword = h,
              Account = [\<lparr>account_id = aid, userId = uid, balance = 0\<rparr>]\<rparr>])"
  by (auto simp: handler_defs list_ex_iff)

lemma register_refused:
  "password_hash rt pw = Inr h \<Longrightarrow> db e h = Some err \<Longrightarrow> err \<noteq> KnownRequest ''P2002'' \<Longrightarrow>
   register rt db uid aid st (Json \<lparr>body_email = Some e, body_password = pw\<rparr>)
   = (Inl (thrown err), st)"
  by (cases err) (simp_all add: handler_defs)

lemma register_hash_throws:
  "password_hash rt pw = Inl n \<Longrightarrow>
   register rt db uid aid st (Json \<lparr>body_email = em, body_password = pw\<rparr>) = (Inl (Error n), st)"
  by (simp add: handler_defs)

lemma register_try_hashed:
  "password_hash rt pw = Inr h \<Longrightarrow>
   register_try rt db uid aid st (Json \<lparr>body_email = em, body_password = pw\<rparr>)
   = (case user_create db uid aid em h st of
        Inl e \<Rightarrow> Inl e
      | Inr (u, st') \<Rightarrow>
          Inr (c_json (JObj [(''message'', JStr (email u @ '' created successfully''))]), st'))"
  by (simp add: register_try_def await_def)

lemma messages_differ: "e @ '' created successfully'' \<noteq> ''Email already exists''"
proof
  assume "e @ '' created successfully'' = ''Email already exists''"
  then have "last (e @ '' created successfully'') = last ''Email already exists''"
    by simp
  then show False by simp
qed

lemma thrown_status: "status_of (Inl (thrown err)) = 500"
  by (cases err) simp_all

text \<open>
  C2, as claimed: a registration with a stored email is answered with a
  409-like error status, a registration with a fresh email with 201. The
  handler sets no status anywhere: both answers are \<^verbatim>\<open>c.json({message})\<close> with the
  default 200. On the one-user table:
\<close>

theorem register_duplicate_status_200:
  "register sample_runtime sample_database ''u2'' ''acc2'' sample_store
     (Json \<lparr>body_email = Some ''a@b.com'', body_password = Some ''pw123456''\<rparr>)
   = (Inr \<lparr>status = 200, body = JObj [(''message'', JStr ''Email already exists'')]\<rparr>, sample_store)
   \<and> status_of (fst (register sample_runtime sample_database ''u2'' ''acc2'' sample_store
        (Json \<lparr>body_email = Some ''a@b.com'', body_password = Some ''pw123456''\<rparr>))) \<noteq> 409
   \<and> status_of (fst (register sample_runtime sample_database ''u2'' ''acc2'' sample_store
        (Json \<lparr>body_email = Some ''c@d.com'', body_password = Some ''pw123456''\<rparr>))) \<noteq> 201"
  by (simp add: handler_defs sample_defs sample_database_def)

text \<open>
  C2, amended: when the password hashes and the database throws no other error
  for the row, a registration with a stored email is answered 200 with the
  message \<^verbatim>\<open>Email already exists\<close> and the table is left as it was; with a fresh
  email it is answered 200 with the message \<^verbatim>\<open><email> created successfully\<close> and
  the user is appended with the hash and one account of balance 0. The two
  answers differ in the message only.
\<close>

theorem register_conflict_by_message:
  "(password_hash rt pw1 = Inr h1 \<and> db e1 h1 = None \<and> e1 \<in> email ` set st \<longrightarrow>
      register rt db uid aid st (Json \<lparr>body_email = Some e1, body_password = pw1\<rparr>)
      = (Inr \<lparr>status = 200, body = JObj [(''message'', JStr ''Email already exists'')]\<rparr>, st))
   \<and> (password_hash rt pw2 = Inr h2 \<and> db e2 h2 = None \<and> e2 \<notin> email ` set st \<longrightarrow>
      register rt db uid aid st (Json \<lparr>body_email = Some e2, body_password = pw2\<rparr>)
      = (Inr \<lparr>status = 200,
              body = JObj [(''message'', JStr (e2 @ '' created successfully''))]\<rparr>,
         st @ [\<lparr>user_id = uid, email = e2, hashedPassword = h2,
                 Account = [\<lparr>account_id = aid, userId = uid, balance = 0\<rparr>]\<rparr>]))
   \<and> e2 @ '' created successfully'' \<noteq> ''Email already exists''"
  using register_known_email [of rt pw1 h1 db e1 st uid aid]
    register_fresh_email [of rt pw2 h2 db e2 st uid aid] messages_differ [of e2]
  by (intro conjI impI) (elim conjE, assumption)+

theorem register_conflict_by_message_witness:
  "password_hash sample_runtime (Some ''pw123456'') = Inr ''$2b$04$pw123456''
   \<and> sample_database ''a@b.com'' ''$2b$04$pw123456'' = None
   \<and> sample_database ''c@d.com'' ''$2b$04$pw123456'' = None
   \<and> ''a@b.com'' \<in> email ` set sample_store
   \<and> ''c@d.com'' \<notin> email ` set sample_store
   \<and> register sample_runtime sample_database ''u2'' ''acc2'' sample_store
        (Json \<lparr>body_email = Some ''a@b.com'', body_password = Some ''pw123456''\<rparr>)
      = (Inr \<lparr>status = 200, body = JObj [(''message'', JStr ''Email already exists'')]\<rparr>,
         sample_store)
   \<and> register sample_runtime sample_database ''u2'' ''acc2'' sample_store
        (Json \<lparr>body_email = Some ''c@d.com'', body_password = Some ''pw123456''\<rparr>)
      = (Inr \<lparr>status = 200,
              body = JObj [(''message'', JStr (''c@d.com'' @ '' created successfully''))]\<rparr>,
         sample_store @ [\<lparr>user_id = ''u2'', email = ''c@d.com'',
                           hashedPassword = ''$2b$04$pw123456'',
                           Account = [\<lparr>account_id = ''acc2'', userId = ''u2'', balance = 0\<rparr>]\<rparr>])"
proof -
  have h: "password_hash sample_runtime (Some ''pw123456'') = Inr ''$2b$04$pw123456''"
    by (simp add: sample_defs)
  have d1: "sample_database ''a@b.com'' ''$2b$04$pw123456'' = None"
    by (simp add: sample_database_def)
  have d2: "sample_database ''c@d.com'' ''$2b$04$pw123456'' = None"
    by (simp add: sample_database_def)
  have known: "''a@b.com'' \<in> email ` set sample_store"
    by (simp add: sample_defs)
  have fresh: "''c@d.com'' \<notin> email ` set sample_store"
    by (simp add: sample_defs)
  note R = register_conflict_by_message
    [where rt = sample_runtime and db = sample_database and st = sample_store
       and uid = "''u2''" and aid = "''acc2''"
       and ?pw1.0 = "Some ''pw123456''" and ?h1.0 = "''$2b$04$pw123456''" and ?e1.0 = "''a@b.com''"
       and ?pw2.0 = "Some ''pw123456''" and ?h2.0 = "''$2b$04$pw123456''" and ?e2.0 = "''c@d.com''"]
  have a: "register sample_runtime sample_database ''u2'' ''acc2'' sample_store
        (Json \<lparr>body_email = Some ''a@b.com'', body_password = Some ''pw123456''\<rparr>)
      = (Inr \<lparr>status = 200, body = JObj [(''message'', JStr ''Email already exists'')]\<rparr>,
         sample_store)"
    using R h d1 known by blast
  have b: "register sample_runtime sample_database ''u2'' ''acc2'' sample_store
        (Json \<lparr>body_email = Some ''c@d.com'', body_password = Some ''pw123456''\<rparr>)
      = (Inr \<lparr>status = 200,
              body = JObj [(''message'', JStr (''c@d.com'' @ '' created successfully''))]\<rparr>,
         sample_store @ [\<lparr>user_id = ''u2'', email = ''c@d.com'',
                           hashedPassword = ''$2b$04$pw123456'',
                           Account = [\<lparr>account_id = ''acc2'', userId = ''u2'', balance = 0\<rparr>]\<rparr>])"
    using R h d2 fresh by blast
  show ?thesis
    by (intro conjI; fact h d1 d2 known fresh a b)
qed

text \<open>
  C6, as claimed: registration checks that email and password are present and
  not empty before it hashes, and answers 400 otherwise. The handler has no such
  check: an empty email with a password is registered and answered 200.
\<close>

theorem register_empty_email_accepted:
  "register sample_runtime sample_database ''u2'' ''acc2'' []
     (Json \<lparr>body_email = Some [], body_password = Some ''pw''\<rparr>)
   = (Inr \<lparr>status = 200, body = JObj [(''message'', JStr '' created successfully'')]\<rparr>,
      [\<lparr>user_id = ''u2'', email = [], hashedPassword = ''$2b$04$pw'',
        Account = [\<lparr>account_id = ''acc2'', userId = ''u2'', balance = 0\<rparr>]\<rparr>])"
  by (simp add: handler_defs sample_defs sample_database_def)

text \<open>
  C6, amended: registration does not validate the shape of its input, and no
  registration is answered 400: the status is 200 or, for an error that is
  thrown again, 500. The password is hashed first: when hashing throws, that
  error is the outcome whatever the email is (missing, empty, stored) and
  whatever the database would say. When the password hashes, the user is created
  with \<^verbatim>\<open>body.email\<close> and the hash as they are; an email that is present, empty
  or not, and a row the database takes give 200; an error of the database other
  than \<^verbatim>\<open>P2002\<close> is thrown again (500) and nothing is stored.
\<close>

theorem register_no_validation:
  "status_of (fst (register rt db uid aid st rb)) \<noteq> 400
   \<and> (status_of (fst (register rt db uid aid st rb)) = 200
       \<or> status_of (fst (register rt db uid aid st rb)) = 500)
   \<and> (password_hash rt pw0 = Inl n \<longrightarrow>
       register rt db uid aid st (Json \<lparr>body_email = em0, body_password = pw0\<rparr>)
       = (Inl (Error n), st))
   \<and> (password_hash rt pw1 = Inr h1 \<longrightarrow>
       register_try rt db uid aid st (Json \<lparr>body_email = em1, body_password = pw1\<rparr>)
       = (case user_create db uid aid em1 h1 st of
            Inl e \<Rightarrow> Inl e
          | Inr (u, st') \<Rightarrow>
              Inr (c_json (JObj [(''message'', JStr (email u @ '' created successfully''))]),
                   st')))
   \<and> (password_hash rt pw2 = Inr h2 \<and> db e2 h2 = None \<longrightarrow>
       status_of (fst (register rt db uid aid st
          (Json \<lparr>body_email = Some e2, body_password = pw2\<rparr>))) = 200)
   \<and> (password_hash rt pw3 = Inr h3 \<and> db e3 h3 = Some err \<and> err \<noteq> KnownRequest ''P2002'' \<longrightarrow>
       register rt db uid aid st (Json \<lparr>body_email = Some e3, body_password = pw3\<rparr>)
       = (Inl (thrown err), st)
       \<and> status_of (Inl (thrown err)) = 500)"
proof (intro conjI impI)
  show "status_of (fst (register rt db uid aid st rb)) \<noteq> 400"
    using register_status [of rt db uid aid st rb] by auto
next
  show "status_of (fst (register rt db uid aid st rb)) = 200
       \<or> status_of (fst (register rt db uid aid st rb)) = 500"
    by (rule register_status)
next
  assume "password_hash rt pw0 = Inl n"
  then show "register rt db uid aid st (Json \<lparr>body_email = em0, body_password = pw0\<rparr>)
       = (Inl (Error n), st)"
    by (rule register_hash_throws)
next
  assume "password_hash rt pw1 = Inr h1"
  then show "register_try rt db uid aid st (Json \<lparr>body_email = em1, body_password = pw1\<rparr>)
       = (case user_create db uid aid em1 h1 st of
            Inl e \<Rightarrow> Inl e
          | Inr (u, st') \<Rightarrow>
              Inr (c_json (JObj [(''message'', JStr (email u @ '' created successfully''))]),
                   st'))"
    by (rule register_try_hashed)
next
  assume a: "password_hash rt pw2 = Inr h2 \<and> db e2 h2 = None"
  show "status_of (fst (register rt db uid aid st
          (Json \<lparr>body_email = Some e2, body_password = pw2\<rparr>))) = 200"
    using a register_known_email [of rt pw2 h2 db e2 st uid aid]
      register_fresh_email [of rt pw2 h2 db e2 st uid aid]
    by (cases "e2 \<in> email ` set st") simp_all
next
  assume "password_hash rt pw3 = Inr h3 \<and> db e3 h3 = Some err \<and> err \<noteq> KnownRequest ''P2002''"
  then show "register rt db uid aid st (Json \<lparr>body_email = Some e3, body_password = pw3\<rparr>)
       = (Inl (thrown err), st)"
    using register_refused [of rt pw3 h3 db e3 err uid aid st] by blast
next
  show "status_of (Inl (thrown err)) = 500"
    by (rule thrown_status)
qed

theorem register_no_validation_witness:
  "password_hash sample_runtime (Some []) = Inl ''Error''
   \<and> register sample_runtime sample_database ''u2'' ''acc2'' sample_store
        (Json \<lparr>body_email = Some ''a@b.com'', body_password = Some []\<rparr>)
      = (Inl (Error ''Error''), sample_store)
   \<and> password_hash sample_runtime (Some ''pw'') = Inr ''$2b$04$pw''
   \<and> sample_database [] ''$2b$04$pw'' = None
   \<and> status_of (fst (register sample_runtime sample_database ''u2'' ''acc2'' sample_store
        (Json \<lparr>body_email = Some [], body_password = Some ''pw''\<rparr>))) = 200
   \<and> sample_database [CHR ''x'', CHR 0x00, CHR ''y''] ''$2b$04$pw''
      = Some (Unknown ''invalid byte sequence for encoding UTF8: 0x00'')
   \<and> register sample_runtime sample_database ''u2'' ''acc2'' sample_store
        (Json \<lparr>body_email = Some [CHR ''x'', CHR 0x00, CHR ''y''], body_password = Some ''pw''\<rparr>)
      = (Inl (Error ''invalid byte sequence for encoding UTF8: 0x00''), sample_store)
   \<and> status_of (fst (register sample_runtime sample_database ''u2'' ''acc2'' sample_store NotJson))
      = 500"
proof -
  have h0: "password_hash sample_runtime (Some []) = Inl ''Error''"
    by (simp add: sample_defs)
  have h: "password_hash sample_runtime (Some ''pw'') = Inr ''$2b$04$pw''"
    by (simp add: sample_defs)
  have d: "sample_database [] ''$2b$04$pw'' = None"
    by (simp add: sample_database_def)
  have r: "sample_database [CHR ''x'', CHR 0x00, CHR ''y''] ''$2b$04$pw''
      = Some (Unknown ''invalid byte sequence for encoding UTF8: 0x00'')"
    by (simp add: sample_database_def)
  have ne: "Unknown ''invalid byte sequence for encoding UTF8: 0x00'' \<noteq> KnownRequest ''P2002''"
    by simp
  note R = register_no_validation
    [where rt = sample_runtime and db = sample_database and st = sample_store
       and uid = "''u2''" and aid = "''acc2''" and rb = NotJson
       and ?pw0.0 = "Some []" and n = "''Error''" and ?em0.0 = "Some ''a@b.com''"
       and ?pw1.0 = "Some ''pw''" and ?h1.0 = "''$2b$04$pw''" and ?em1.0 = "Some []"
       and ?pw2.0 = "Some ''pw''" and ?h2.0 = "''$2b$04$pw''" and ?e2.0 = "[]"
       and ?pw3.0 = "Some ''pw''" and ?h3.0 = "''$2b$04$pw''"
       and ?e3.0 = "[CHR ''x'', CHR 0x00, CHR ''y'']"
       and err = "Unknown ''invalid byte sequence for encoding UTF8: 0x00''"]
  have a: "register sample_runtime sample_database ''u2'' ''acc2'' sample_store
        (Json \<lparr>body_email = Some ''a@b.com'', body_password = Some []\<rparr>)
      = (Inl (Error ''Error''), sample_store)"
    using R h0 by blast
  have b: "status_of (fst (register sample_runtime sample_database ''u2'' ''acc2'' sample_store
        (Json \<lparr>body_email = Some [], body_password = Some ''pw''\<rparr>))) = 200"
    using R h d by blast
  have c: "register sample_runtime sample_database ''u2'' ''acc2'' sample_store
        (Json \<lparr>body_email = Some [CHR ''x'', CHR 0x00, CHR ''y''], body_password = Some ''pw''\<rparr>)
      = (Inl (thrown (Unknown ''invalid byte sequence for encoding UTF8: 0x00'')), sample_store)"
    using R h r ne by blast
  then have c': "register sample_runtime sample_database ''u2'' ''acc2'' sample_store
        (Json \<lparr>body_email = Some [CHR ''x'', CHR 0x00, CHR ''y''], body_password = Some ''pw''\<rparr>)
      = (Inl (Error ''invalid byte sequence for encoding UTF8: 0x00''), sample_store)"
    by (simp only: thrown.simps)
  have e: "status_of (fst (register sample_runtime sample_database ''u2'' ''acc2'' sample_store NotJson))
      = 500"
    by (simp add: handler_defs)
  show ?thesis
    by (intro conjI; fact h0 a h d b r c' e)
qed

subsection \<open>Passwords and hashes stay inside\<close>












subsection \<open>The token login issues\<close>

lemma login_success:
  assumes "find_by_email st (body_email b) = Inr (Some u)"
    and "password_verify rt (body_password b) (hashedPassword u) = Inr True"
    and "sign rt \<lparr>sub = user_id u, exp = now_ms div 1000 + 3600\<rparr> secret = Inr tok"
  shows "login rt now_ms st (Json b)
         = Inr \<lparr>status = 200,
                body = JObj [(''message'', JStr ''Login successful''), (''token'', JStr tok)]\<rparr>"
  using assms by (simp add: login_def login_try_def await_def login_payload_def c_json_def)

lemma login_returns:
  assumes "login rt now_ms st rb = Inr r"
  shows "r = \<lparr>status = 200, body = JObj [(''message'', JStr ''User not found'')]\<rparr>
         \<or> (\<exists>u tok. u \<in> set st
               \<and> sign rt \<lparr>sub = user_id u, exp = now_ms div 1000 + 3600\<rparr> secret = Inr tok
               \<and> r = \<lparr>status = 200,
                       body = JObj [(''message'', JStr ''Login successful''),
                                    (''token'', JStr tok)]\<rparr>)"
proof (cases rb)
  case NotJson
  with assms show ?thesis by (simp add: login_def login_try_def)
next
  case (Json b)
  show ?thesis
  proof (cases "body_email b")
    case None
    with assms Json show ?thesis by (simp add: login_def login_try_def find_by_email_def)
  next
    case (Some e)
    show ?thesis
    proof (cases "find (\<lambda>u. email u = e) st")
      case None
      with assms Json Some show ?thesis
        by (simp add: login_def login_try_def find_by_email_def c_json_def)
    next
      case (Some u)
      then have u: "u \<in> set st" by (rule find_in_set)
      from assms Json \<open>body_email b = Some e\<close> Some
      have "\<exists>tok. sign rt \<lparr>sub = user_id u, exp = now_ms div 1000 + 3600\<rparr> secret = Inr tok
               \<and> r = \<lparr>status = 200,
                       body = JObj [(''message'', JStr ''Login successful''),
                                    (''token'', JStr tok)]\<rparr>"
        by (auto simp: login_def login_try_def find_by_email_def await_def login_payload_def
            c_json_def split: sum.splits if_splits)
      with u show ?thesis by blast
    qed
  qed
qed

text \<open>
  C8. The payload login hands to \<^verbatim>\<open>sign\<close> has as \<^verbatim>\<open>exp\<close> the current time in whole
  seconds plus 3600, which lies strictly after the current time, against the
  second count and against the millisecond clock it was read from. With any
  runtime: when the user is found and the password matches, the token in the
  response is what \<^verbatim>\<open>sign\<close> returns for that payload and the secret; and every
  response of login that carries a token carries one signed over such a payload
  of a stored user.
\<close>

theorem login_token_exp_future:
  "exp (login_payload uid now_ms) = now_ms div 1000 + 3600
   \<and> now_ms div 1000 < exp (login_payload uid now_ms)
   \<and> now_ms < 1000 * exp (login_payload uid now_ms)
   \<and> (find_by_email st (body_email b) = Inr (Some u)
       \<and> password_verify rt (body_password b) (hashedPassword u) = Inr True
       \<and> sign rt \<lparr>sub = user_id u, exp = now_ms div 1000 + 3600\<rparr> secret = Inr tok \<longrightarrow>
       login rt now_ms st (Json b)
       = Inr \<lparr>status = 200,
              body = JObj [(''message'', JStr ''Login successful''), (''token'', JStr tok)]\<rparr>)
   \<and> (login rt now_ms st rb = Inr r \<longrightarrow>
       r = \<lparr>status = 200, body = JObj [(''message'', JStr ''User not found'')]\<rparr>
       \<or> (\<exists>u' tok'. u' \<in> set st
             \<and> sign rt \<lparr>sub = user_id u', exp = now_ms div 1000 + 3600\<rparr> secret = Inr tok'
             \<and> r = \<lparr>status = 200,
                     body = JObj [(''message'', JStr ''Login successful''),
                                  (''token'', JStr tok')]\<rparr>))"
proof (intro conjI impI)
  show "exp (login_payload uid now_ms) = now_ms div 1000 + 3600"
    by (simp add: login_payload_def)
next
  show "now_ms div 1000 < exp (login_payload uid now_ms)"
    by (simp add: login_payload_def)
next
  have "now_ms < 1000 * (now_ms div 1000) + 1000"
    by presburger
  then show "now_ms < 1000 * exp (login_payload uid now_ms)"
    by (simp add: login_payload_def)
next
  assume "find_by_email st (body_email b) = Inr (Some u)
       \<and> password_verify rt (body_password b) (hashedPassword u) = Inr True
       \<and> sign rt \<lparr>sub = user_id u, exp = now_ms div 1000 + 3600\<rparr> secret = Inr tok"
  then show "login rt now_ms st (Json b)
       = Inr \<lparr>status = 200,
              body = JObj [(''message'', JStr ''Login successful''), (''token'', JStr tok)]\<rparr>"
    using login_success [of st b u rt now_ms tok] by blast
next
  assume "login rt now_ms st rb = Inr r"
  then show "r = \<lparr>status = 200, body = JObj [(''message'', JStr ''User not found'')]\<rparr>
       \<or> (\<exists>u' tok'. u' \<in> set st
             \<and> sign rt \<lparr>sub = user_id u', exp = now_ms div 1000 + 3600\<rparr> secret = Inr tok'
             \<and> r = \<lparr>status = 200,
                     body = JObj [(''message'', JStr ''Login successful''),
                                  (''token'', JStr tok')]\<rparr>)"
    by (rule login_returns)
qed

lemma sample_login_found:
  "find_by_email sample_store
     (body_email \<lparr>body_email = Some ''a@b.com'', body_password = Some ''pw123456''\<rparr>)
   = Inr (Some (hd sample_store))"
  by (simp add: find_by_email_def sample_store_def)

lemma sample_login_match:
  "password_verify sample_runtime
     (body_password \<lparr>body_email = Some ''a@b.com'', body_password = Some ''pw123456''\<rparr>)
     (hashedPassword (hd sample_store)) = Inr True"
  by (simp add: sample_defs)

lemma sample_login_sign:
  "sign sample_runtime \<lparr>sub = user_id (hd sample_store), exp = 1500 div 1000 + 3600\<rparr> secret
   = Inr (sign_token sample_scheme \<lparr>sub = ''u1'', exp = 3601\<rparr> secret)"
  by (simp add: sample_defs)

theorem login_token_exp_future_witness:
  "find_by_email sample_store
     (body_email \<lparr>body_email = Some ''a@b.com'', body_password = Some ''pw123456''\<rparr>)
   = Inr (Some (hd sample_store))
   \<and> password_verify sample_runtime
       (body_password \<lparr>body_email = Some ''a@b.com'', body_password = Some ''pw123456''\<rparr>)
       (hashedPassword (hd sample_store)) = Inr True
   \<and> sign sample_runtime \<lparr>sub = user_id (hd sample_store), exp = 1500 div 1000 + 3600\<rparr> secret
      = Inr (sign_token sample_scheme \<lparr>sub = ''u1'', exp = 3601\<rparr> secret)
   \<and> login sample_runtime 1500 sample_store
        (Json \<lparr>body_email = Some ''a@b.com'', body_password = Some ''pw123456''\<rparr>)
      = Inr \<lparr>status = 200,
             body = JObj [(''message'', JStr ''Login successful''),
                          (''token'',
                           JStr (sign_token sample_scheme \<lparr>sub = ''u1'', exp = 3601\<rparr> secret))]\<rparr>
   \<and> (\<exists>u' tok'. u' \<in> set sample_store
         \<and> sign sample_runtime \<lparr>sub = user_id u', exp = 1500 div 1000 + 3600\<rparr> secret = Inr tok'
         \<and> \<lparr>status = 200,
             body = JObj [(''message'', JStr ''Login successful''),
                          (''token'',
                           JStr (sign_token sample_scheme \<lparr>sub = ''u1'', exp = 3601\<rparr> secret))]\<rparr>
           = \<lparr>status = 200,
               body = JObj [(''message'', JStr ''Login successful''), (''token'', JStr tok')]\<rparr>)"
proof -
  note T = login_token_exp_future
    [where st = sample_store and rt = sample_runtime and now_ms = 1500
       and b = "\<lparr>body_email = Some ''a@b.com'', body_password = Some ''pw123456''\<rparr>"
       and u = "hd sample_store"
       and tok = "sign_token sample_scheme \<lparr>sub = ''u1'', exp = 3601\<rparr> secret"
       and rb = "Json \<lparr>body_email = Some ''a@b.com'', body_password = Some ''pw123456''\<rparr>"
       and r = "\<lparr>status = 200,
             body = JObj [(''message'', JStr ''Login successful''),
                          (''token'',
                           JStr (sign_token sample_scheme \<lparr>sub = ''u1'', exp = 3601\<rparr> secret))]\<rparr>"
       and uid = "''u1''"]
  have a: "login sample_runtime 1500 sample_store
        (Json \<lparr>body_email = Some ''a@b.com'', body_password = Some ''pw123456''\<rparr>)
      = Inr \<lparr>status = 200,
             body = JObj [(''message'', JStr ''Login successful''),
                          (''token'',
                           JStr (sign_token sample_scheme \<lparr>sub = ''u1'', exp = 3601\<rparr> secret))]\<rparr>"
    using T sample_login_found sample_login_match sample_login_sign by blast
  have "\<lparr>status = 200,
             body = JObj [(''message'', JStr ''Login successful''),
                          (''token'',
                           JStr (sign_token sample_scheme \<lparr>sub = ''u1'', exp = 3601\<rparr> secret))]\<rparr>
        = \<lparr>status = 200, body = JObj [(''message'', JStr ''User not found'')]\<rparr>
       \<or> (\<exists>u' tok'. u' \<in> set sample_store
         \<and> sign sample_runtime \<lparr>sub = user_id u', exp = 1500 div 1000 + 3600\<rparr> secret = Inr tok'
         \<and> \<lparr>status = 200,
             body = JObj [(''message'', JStr ''Login successful''),
                          (''token'',
                           JStr (sign_token sample_scheme \<lparr>sub = ''u1'', exp = 3601\<rparr> secret))]\<rparr>
           = \<lparr>status = 200,
               body = JObj [(''message'', JStr ''Login successful''), (''token'', JStr tok')]\<rparr>)"
    using conjunct2 [OF conjunct2 [OF conjunct2 [OF conjunct2 [OF T]]]] a by (rule mp)
  then have e: "\<exists>u' tok'. u' \<in> set sample_store
         \<and> sign sample_runtime \<lparr>sub = user_id u', exp = 1500 div 1000 + 3600\<rparr> secret = Inr tok'
         \<and> \<lparr>status = 200,
             body = JObj [(''message'', JStr ''Login successful''),
                          (''token'',
                           JStr (sign_token sample_scheme \<lparr>sub = ''u1'', exp = 3601\<rparr> secret))]\<rparr>
           = \<lparr>status = 200,
               body = JObj [(''message'', JStr ''Login successful''), (''token'', JStr tok')]\<rparr>"
    by simp
  show ?thesis
    by (intro conjI; fact sample_login_found sample_login_match sample_login_sign a e)
qed

subsection \<open>Token verification\<close>

lemma split_on_nonempty: "split_on d xs \<noteq> []"
  by (induction xs) (auto split: list.splits)


















subsection \<open>Password hashing\<close>







end
